theory Spec2Isabelle
  imports Main "HOL-Library.Sublist" "HOL-Library.Char_ord" "HOL-Library.List_Lexorder"
begin

section \<open>The data layer of the council dashboard (Councildashboard\_.py)\<close>

text \<open>
  The dashboard script loads the council's JSON exports into pandas frames, derives a
  status column for the agenda items, joins the memberships with the people and the
  organizations, and filters the frames by date range and by the values picked in the
  sidebar. This theory embeds those steps as functions on lists of rows and proves what
  the specification says of them.

  The boundary of the model. The libraries the script calls are represented by what they
  return: \<open>open\<close> and \<open>json.load\<close> by the four possible states of a source
  file (\<open>json_file\<close>), \<open>pd.to_datetime(...).dt.tz_convert(None)\<close> by the instant it
  computes (nanoseconds since the epoch, as pandas stores a timestamp). A JSON record
  carries the keys of the data model, each of which may be missing from the object, be
  \<open>null\<close>, or hold a string. A membership record may carry a \<open>name\<close> of its own
  as well, the one key of the people and organizations that changes what the merges
  call their columns; its \<open>id\<close> only renames columns the loader never reads, and
  further keys of the export are not modelled. A Python string
  is a list of code points; the model's characters are the code points below 256.
  A frame is the list of its rows, so \<open>pd.DataFrame()\<close> is the empty list. A look-up of
  a column that no record of the collection carries raises \<open>KeyError\<close>, as pandas does.
\<close>

subsection \<open>Strings\<close>

text \<open>
  \<open>str.strip()\<close> removes leading and trailing whitespace. Of the code points below 256,
  Python counts as whitespace 9 to 13, 28 to 32, 133 and 160.
\<close>

definition isspace :: "char \<Rightarrow> bool" where
  "isspace c = (of_char c \<in> {9, 10, 11, 12, 13, 28, 29, 30, 31, 32, 133, 160 :: nat})"

definition strip :: "string \<Rightarrow> string" where
  "strip s = rev (dropWhile isspace (rev (dropWhile isspace s)))"

text \<open>
  \<open>str.replace(old, new)\<close> replaces every occurrence of \<open>old\<close>, scanning from the
  left and continuing after each replaced occurrence; an empty \<open>old\<close> matches before
  every character and at the end. \<open>Series.str.replace\<close> with a pattern of letters and
  spaces does the same on every cell, whether it reads the pattern as a regular
  expression or as a literal.
\<close>

fun str_replace :: "string \<Rightarrow> string \<Rightarrow> string \<Rightarrow> string" where
  "str_replace old new [] = (if old = [] then new else [])"
| "str_replace old new (c # cs) =
     (if old = [] then new @ c # str_replace old new cs
      else if prefix old (c # cs) then new @ str_replace old new (drop (length old - 1) cs)
      else c # str_replace old new cs)"

subsection \<open>Source files and records\<close>

datatype error = FileNotFoundError | JSONDecodeError | KeyError

text \<open>
  A source file as \<open>open\<close>, \<open>json.load\<close> and the subscript \<open>['data']\<close> see it: not
  there, not JSON, a JSON object without the key \<open>data\<close>, or an object whose \<open>data\<close>
  is a list of records.
\<close>

datatype 'a json_file = Missing | Invalid_json | No_data_key | Data "'a list"

definition read_data :: "'a json_file \<Rightarrow> error + 'a list" where
  "read_data file =
     (case file of
        Missing \<Rightarrow> Inl FileNotFoundError
      | Invalid_json \<Rightarrow> Inl JSONDecodeError
      | No_data_key \<Rightarrow> Inl KeyError
      | Data records \<Rightarrow> Inr records)"

text \<open>A key of a JSON record: missing from the object, \<open>null\<close>, or a string.\<close>

datatype field = Absent | Null | Str string

text \<open>
  A cell of a frame of strings: \<open>None\<close> is the missing value (NaN), which
  \<open>pd.DataFrame\<close> puts where the record has no such key or has \<open>null\<close>.
\<close>

type_synonym cell = "string option"

definition cell_of :: "field \<Rightarrow> cell" where
  "cell_of f = (case f of Absent \<Rightarrow> None | Null \<Rightarrow> None | Str s \<Rightarrow> Some s)"

text \<open>
  The columns of \<open>pd.DataFrame(records)\<close> are the keys that occur in some record (a
  key whose value is \<open>null\<close> occurs). Reading any other column raises \<open>KeyError\<close>.
\<close>

definition has_column :: "('a \<Rightarrow> field) \<Rightarrow> 'a list \<Rightarrow> bool" where
  "has_column key records = list_ex (\<lambda>r. key r \<noteq> Absent) records"

definition fillna :: "string \<Rightarrow> cell \<Rightarrow> string" where
  "fillna v c = (case c of None \<Rightarrow> v | Some s \<Rightarrow> s)"

definition isin :: "'a \<Rightarrow> 'a list \<Rightarrow> bool" where
  "isin x vs = (x \<in> set vs)"

text \<open>\<open>Series.unique()\<close>: the distinct values in the order of their first occurrence.\<close>

fun unique_from :: "'a list \<Rightarrow> 'a list \<Rightarrow> 'a list" where
  "unique_from seen [] = []"
| "unique_from seen (x # xs) =
     (if x \<in> set seen then unique_from seen xs else x # unique_from (x # seen) xs)"

definition unique :: "'a list \<Rightarrow> 'a list" where
  "unique xs = unique_from [] xs"

record AgendaItem =
  item_id :: field
  item_name :: field
  created :: int
  result :: field

record Person =
  person_id :: field
  person_name :: field

record Org =
  org_id :: field
  org_name :: field

record Membership =
  person :: field
  organization :: field
  role :: field
  startDate :: field
  membership_name :: field

subsection \<open>load\_and\_preprocess\_decisions\<close>

text \<open>A row of the decisions frame: the record's columns and the derived \<open>status\<close>.\<close>

record decision =
  item :: AgendaItem
  status :: string

text \<open>
  The body of the \<open>try\<close>. \<open>df['created']\<close> raises \<open>KeyError\<close> on the frame of an
  empty list, which has no columns; \<open>df['result']\<close> raises it when no record has the
  key. \<open>fillna\<close> and \<open>str.strip\<close> work cell by cell, and the boolean mask keeps the
  rows in their order.
\<close>

definition decisions_try :: "AgendaItem json_file \<Rightarrow> error + decision list \<times> decision list" where
  "decisions_try file =
     (case read_data file of
        Inl e \<Rightarrow> Inl e
      | Inr data \<Rightarrow>
          if data = [] then Inl KeyError
          else if \<not> has_column result data then Inl KeyError
          else
            let df = map (\<lambda>r. \<lparr>item = r,
                                status = strip (fillna ''No result'' (cell_of (result r)))\<rparr>) data;
                df_filtered =
                  filter (\<lambda>r. \<not> isin (status r) [''No result'', ''Kenntnis genommen'']) df
            in Inr (df, df_filtered))"

text \<open>\<open>except FileNotFoundError\<close> is the only handler: every other exception leaves the loader.\<close>

definition load_and_preprocess_decisions ::
  "AgendaItem json_file \<Rightarrow> error + decision list \<times> decision list" where
  "load_and_preprocess_decisions file =
     (case decisions_try file of
        Inl FileNotFoundError \<Rightarrow> Inr ([], [])
      | Inl e \<Rightarrow> Inl e
      | Inr frames \<Rightarrow> Inr frames)"

subsection \<open>load\_and\_preprocess\_people\<close>

text \<open>
  \<open>left.merge(right[['id', 'name']], left_on=..., right_on='id', how='left')\<close>: every
  left row, in the left order, once for each right row whose \<open>id\<close> equals its key (in
  the right order), and once with a missing \<open>name\<close> when there is none. pandas matches
  a missing key with a missing \<open>id\<close>. The right frame is the list of its
  (\<open>id\<close>, \<open>name\<close>) rows; a merged row is the left row with the \<open>name\<close> cell.
\<close>

definition merge_left :: "'a list \<Rightarrow> ('a \<Rightarrow> cell) \<Rightarrow> (cell \<times> cell) list \<Rightarrow> ('a \<times> cell) list" where
  "merge_left left left_on right =
     concat (map (\<lambda>l. case filter (\<lambda>r. fst r = left_on l) right of
                         [] \<Rightarrow> [(l, None)]
                       | ms \<Rightarrow> map (\<lambda>r. (l, snd r)) ms) left)"

text \<open>A row of the table the loader returns.\<close>

record member =
  Name :: string
  Organization :: string
  Role :: string
  Start_Date :: string

text \<open>
  The clean-up of the \<open>Organization\<close> column:
  \<open>.str.replace('Fraktion der ', '').str.replace('Fraktionsgemeinschaft ', '')\<close>.
\<close>

definition clean_organization :: "string \<Rightarrow> string" where
  "clean_organization s =
     str_replace ''Fraktionsgemeinschaft '' '''' (str_replace ''Fraktion der '' '''' s)"

text \<open>
  The body of the \<open>try\<close>. The three files are read in the order people,
  organizations, memberships. \<open>df_people[['id', 'name']]\<close>, the merge keys and the
  selection of the four final columns raise \<open>KeyError\<close> for a column that no record
  carries. When the memberships have a \<open>name\<close> column, the first merge calls the two
  name columns \<open>name_x\<close> and \<open>name_y\<close>, the \<open>rename\<close> finds no column
  \<open>name\<close>, and the selection raises \<open>KeyError\<close> for \<open>name_person\<close>.
  \<open>fillna('Unknown')\<close> fills every column of the final frame.
\<close>

definition people_try ::
  "Person json_file \<Rightarrow> Org json_file \<Rightarrow> Membership json_file \<Rightarrow> error + member list" where
  "people_try people_path org_path membership_path =
     (case read_data people_path of
        Inl e \<Rightarrow> Inl e
      | Inr people_data \<Rightarrow>
     (case read_data org_path of
        Inl e \<Rightarrow> Inl e
      | Inr org_data \<Rightarrow>
     (case read_data membership_path of
        Inl e \<Rightarrow> Inl e
      | Inr membership_data \<Rightarrow>
          if \<not> (has_column person_id people_data \<and> has_column person_name people_data)
          then Inl KeyError
          else if \<not> has_column person membership_data then Inl KeyError
          else
            let df_members =
                  merge_left membership_data (\<lambda>m. cell_of (person m))
                    (map (\<lambda>p. (cell_of (person_id p), cell_of (person_name p))) people_data)
            in
            if \<not> (has_column org_id org_data \<and> has_column org_name org_data)
            then Inl KeyError
            else if \<not> has_column organization membership_data then Inl KeyError
            else
              let df_members =
                    merge_left df_members (\<lambda>(m, name_person). cell_of (organization m))
                      (map (\<lambda>g. (cell_of (org_id g), cell_of (org_name g))) org_data)
              in
              if has_column membership_name membership_data then Inl KeyError
              else if \<not> (has_column role membership_data \<and> has_column startDate membership_data)
              then Inl KeyError
              else
                let df_members_final =
                      map (\<lambda>((m, name_person), name_org).
                             \<lparr>Name = fillna ''Unknown'' name_person,
                              Organization = fillna ''Unknown'' name_org,
                              Role = fillna ''Unknown'' (cell_of (role m)),
                              Start_Date = fillna ''Unknown'' (cell_of (startDate m))\<rparr>)
                          df_members
                in Inr (map (\<lambda>r. r\<lparr>Organization := clean_organization (Organization r)\<rparr>)
                          df_members_final))))"

definition load_and_preprocess_people ::
  "Person json_file \<Rightarrow> Org json_file \<Rightarrow> Membership json_file \<Rightarrow> error + member list" where
  "load_and_preprocess_people people_path org_path membership_path =
     (case people_try people_path org_path membership_path of
        Inl FileNotFoundError \<Rightarrow> Inr []
      | Inl e \<Rightarrow> Inl e
      | Inr df_members_final \<Rightarrow> Inr df_members_final)"

subsection \<open>The table, one membership at a time\<close>

text \<open>
  Three notions used to state and prove the properties of the join; the lemma
  \<open>people_Data_iff\<close> below connects them with the loader. \<open>joined_names right k\<close>
  are the \<open>name\<close> cells a left row with key \<open>k\<close> is merged with, \<open>member_rows\<close>
  the rows of the final table that come from one membership record, and
  \<open>people_columns\<close> says that every column the loader reads occurs in some record
  and that no membership record has a \<open>name\<close>.
\<close>

definition joined_names :: "(cell \<times> cell) list \<Rightarrow> cell \<Rightarrow> cell list" where
  "joined_names right k =
     (case filter (\<lambda>r. fst r = k) right of [] \<Rightarrow> [None] | ms \<Rightarrow> map snd ms)"

definition member_rows :: "Person list \<Rightarrow> Org list \<Rightarrow> Membership \<Rightarrow> member list" where
  "member_rows people orgs m =
     concat (map (\<lambda>name_person.
       map (\<lambda>name_org.
             \<lparr>Name = fillna ''Unknown'' name_person,
              Organization = clean_organization (fillna ''Unknown'' name_org),
              Role = fillna ''Unknown'' (cell_of (role m)),
              Start_Date = fillna ''Unknown'' (cell_of (startDate m))\<rparr>)
           (joined_names (map (\<lambda>g. (cell_of (org_id g), cell_of (org_name g))) orgs)
              (cell_of (organization m))))
       (joined_names (map (\<lambda>p. (cell_of (person_id p), cell_of (person_name p))) people)
          (cell_of (person m))))"

definition people_columns :: "Person list \<Rightarrow> Org list \<Rightarrow> Membership list \<Rightarrow> bool" where
  "people_columns people orgs memberships =
     (has_column person_id people \<and> has_column person_name people \<and>
      has_column org_id orgs \<and> has_column org_name orgs \<and>
      has_column person memberships \<and> has_column organization memberships \<and>
      has_column role memberships \<and> has_column startDate memberships \<and>
      \<not> has_column membership_name memberships)"

subsection \<open>The filters of the Decisions and People pages\<close>

text \<open>
  \<open>Series.dt.date\<close>: the calendar day of an instant, as a day number (pandas counts an
  instant in nanoseconds, and a day has 86400000000000 of them).
\<close>

definition dt_date :: "int \<Rightarrow> int" where
  "dt_date t = t div 86400000000000"

text \<open>
  The date filter of the Decisions page. \<open>date_range\<close> is the tuple of day numbers the
  date widget returns: two days once the user has picked both ends, fewer while the
  choice is under way, and then the frame is not filtered.
\<close>

definition filter_date_range :: "int list \<Rightarrow> decision list \<Rightarrow> decision list" where
  "filter_date_range date_range df_decisions =
     (if length date_range = 2
      then filter (\<lambda>r. dt_date (created (item r)) \<ge> date_range ! 0 \<and>
                        dt_date (created (item r)) \<le> date_range ! 1) df_decisions
      else df_decisions)"

text \<open>
  \<open>sorted(filtered_df['status'].unique())\<close>; Python orders strings by code point,
  the shorter of two strings first when it is a prefix of the other.
\<close>

definition status_options :: "decision list \<Rightarrow> string list" where
  "status_options filtered_df = sort (unique (map status filtered_df))"

definition filter_status :: "string list \<Rightarrow> decision list \<Rightarrow> decision list" where
  "filter_status selected_statuses filtered_df =
     filter (\<lambda>r. isin (status r) selected_statuses) filtered_df"

text \<open>
  The Decisions page, from the test \<open>not df_all_decisions.empty\<close> to the status mask.
  \<open>multiselect\<close> is the choice the user makes among the options offered (all of them
  by default). The page computes nothing when the full frame is empty.
\<close>

definition decisions_page ::
  "decision list \<Rightarrow> decision list \<Rightarrow> int list \<Rightarrow> (string list \<Rightarrow> string list) \<Rightarrow> decision list option" where
  "decisions_page df_all_decisions df_decisions date_range multiselect =
     (if df_all_decisions = [] then None
      else
        let filtered_df = filter_date_range date_range df_decisions;
            selected_statuses = multiselect (status_options filtered_df)
        in Some (filter_status selected_statuses filtered_df))"

text \<open>The People page, from the test \<open>not df_members.empty\<close> to the organization mask.\<close>

definition org_options :: "member list \<Rightarrow> string list" where
  "org_options df_members = sort (unique (map Organization df_members))"

definition filter_orgs :: "string list \<Rightarrow> member list \<Rightarrow> member list" where
  "filter_orgs selected_orgs df_members =
     filter (\<lambda>r. isin (Organization r) selected_orgs) df_members"

definition people_page :: "member list \<Rightarrow> (string list \<Rightarrow> string list) \<Rightarrow> member list option" where
  "people_page df_members multiselect =
     (if df_members = [] then None
      else
        let selected_orgs = multiselect (org_options df_members)
        in Some (filter_orgs selected_orgs df_members))"

section \<open>Auxiliary lemmas\<close>

subsection \<open>Strings and the decisions loader\<close>

lemma strip_No_result: "strip ''No result'' = ''No result''"
  by (simp add: strip_def isspace_def)

lemma strip_eq_Nil_iff: "strip s = [] \<longleftrightarrow> list_all isspace s"
proof -
  have "strip s = [] \<longleftrightarrow> (\<forall>c\<in>set (dropWhile isspace s). isspace c)"
    by (simp add: strip_def dropWhile_eq_Nil_conv)
  also have "\<dots> \<longleftrightarrow> dropWhile isspace s = []"
  proof
    assume all: "\<forall>c\<in>set (dropWhile isspace s). isspace c"
    show "dropWhile isspace s = []"
    proof (rule ccontr)
      assume ne: "dropWhile isspace s \<noteq> []"
      then have "\<not> isspace (hd (dropWhile isspace s))"
        by (simp add: hd_dropWhile)
      moreover have "hd (dropWhile isspace s) \<in> set (dropWhile isspace s)"
        using ne by simp
      ultimately show False using all by blast
    qed
  qed (auto dest: set_dropWhileD)
  also have "\<dots> \<longleftrightarrow> list_all isspace s"
    by (simp add: dropWhile_eq_Nil_conv list_all_iff)
  finally show ?thesis .
qed

lemma decisions_Data_iff:
  "load_and_preprocess_decisions (Data data) = Inr (df, df_filtered) \<longleftrightarrow>
     data \<noteq> [] \<and> has_column result data \<and>
     df = map (\<lambda>r. \<lparr>item = r, status = strip (fillna ''No result'' (cell_of (result r)))\<rparr>) data \<and>
     df_filtered = filter (\<lambda>r. status r \<noteq> ''No result'' \<and> status r \<noteq> ''Kenntnis genommen'') df"
  by (auto simp: load_and_preprocess_decisions_def decisions_try_def read_data_def isin_def Let_def)

lemma decisions_Inr_filtered:
  assumes "load_and_preprocess_decisions src = Inr (df, df_filtered)"
  shows "df_filtered = filter (\<lambda>r. status r \<noteq> ''No result'' \<and> status r \<noteq> ''Kenntnis genommen'') df"
proof (cases src)
  case (Data data)
  with assms show ?thesis by (simp add: decisions_Data_iff)
qed (use assms in \<open>auto simp: load_and_preprocess_decisions_def decisions_try_def read_data_def\<close>)

subsection \<open>The left merge\<close>

lemma joined_names_not_Nil: "joined_names right k \<noteq> []"
  by (simp add: joined_names_def split: list.split)

lemma merge_left_conv:
  "merge_left left left_on right =
     concat (map (\<lambda>l. map (Pair l) (joined_names right (left_on l))) left)"
  unfolding merge_left_def joined_names_def
  by (rule arg_cong[where f = concat], rule map_cong) (auto split: list.split)

lemma merge_left_Nil: "merge_left [] left_on right = []"
  by (simp add: merge_left_def)

lemma merge_left_Cons:
  "merge_left (l # left) left_on right =
     map (Pair l) (joined_names right (left_on l)) @ merge_left left left_on right"
  by (simp add: merge_left_conv)

lemma merge_left_append:
  "merge_left (xs @ ys) left_on right = merge_left xs left_on right @ merge_left ys left_on right"
  by (simp add: merge_left_conv)

lemma merge_left_pairs:
  "map f (merge_left (map (Pair m) ns) (\<lambda>(m, n). k m) right) =
     concat (map (\<lambda>n. map (\<lambda>n'. f ((m, n), n')) (joined_names right (k m))) ns)"
  by (induction ns) (simp_all add: merge_left_Nil merge_left_Cons comp_def)

lemma merge_left_twice:
  "map f (merge_left (merge_left ms k1 right1) (\<lambda>(m, n). k2 m) right2) =
     concat (map (\<lambda>m. concat (map (\<lambda>n. map (\<lambda>n'. f ((m, n), n')) (joined_names right2 (k2 m)))
                                 (joined_names right1 (k1 m)))) ms)"
  by (induction ms) (simp_all add: merge_left_Nil merge_left_Cons merge_left_append merge_left_pairs)

lemma people_Data_iff:
  "load_and_preprocess_people (Data people) (Data orgs) (Data memberships) = Inr t \<longleftrightarrow>
     people_columns people orgs memberships \<and> t = concat (map (member_rows people orgs) memberships)"
proof -
  have rows: "map (\<lambda>r. r\<lparr>Organization := clean_organization (Organization r)\<rparr>)
      (map (\<lambda>((m, name_person), name_org).
             \<lparr>Name = fillna ''Unknown'' name_person,
              Organization = fillna ''Unknown'' name_org,
              Role = fillna ''Unknown'' (cell_of (role m)),
              Start_Date = fillna ''Unknown'' (cell_of (startDate m))\<rparr>)
        (merge_left
          (merge_left memberships (\<lambda>m. cell_of (person m))
             (map (\<lambda>p. (cell_of (person_id p), cell_of (person_name p))) people))
          (\<lambda>(m, name_person). cell_of (organization m))
          (map (\<lambda>g. (cell_of (org_id g), cell_of (org_name g))) orgs))) =
    concat (map (member_rows people orgs) memberships)"
    unfolding merge_left_twice member_rows_def
    by (simp add: map_concat comp_def)
  show ?thesis
    unfolding load_and_preprocess_people_def people_try_def read_data_def Let_def
    by (auto simp: people_columns_def rows simp del: map_map)
qed

lemma filter_key_le_1:
  "distinct (map fst right) \<Longrightarrow> length (filter (\<lambda>r. fst r = k) right) \<le> 1"
proof (induction right)
  case Nil
  then show ?case by simp
next
  case (Cons a right)
  show ?case
  proof (cases "fst a = k")
    case True
    from Cons.prems have "fst a \<notin> fst ` set right"
      by simp
    with True have "\<forall>r\<in>set right. fst r \<noteq> k"
      by blast
    then have "filter (\<lambda>r. fst r = k) right = []"
      by (simp add: filter_empty_conv)
    with True show ?thesis by simp
  next
    case False
    with Cons show ?thesis by simp
  qed
qed

lemma joined_names_distinct:
  assumes "distinct (map fst right)"
  shows "length (joined_names right k) = 1"
proof (cases "filter (\<lambda>r. fst r = k) right")
  case Nil
  then show ?thesis by (simp add: joined_names_def)
next
  case (Cons a ms)
  with filter_key_le_1[OF assms, of k] show ?thesis
    by (simp add: joined_names_def)
qed


lemma member_rows_not_Nil: "member_rows people orgs m \<noteq> []"
proof -
  obtain a as where "joined_names (map (\<lambda>p. (cell_of (person_id p), cell_of (person_name p))) people)
          (cell_of (person m)) = a # as"
    using joined_names_not_Nil by (meson list.exhaust)
  moreover obtain b bs where "joined_names (map (\<lambda>g. (cell_of (org_id g), cell_of (org_name g))) orgs)
              (cell_of (organization m)) = b # bs"
    using joined_names_not_Nil by (meson list.exhaust)
  ultimately show ?thesis by (simp add: member_rows_def)
qed

lemma member_rows_distinct:
  assumes "distinct (map (\<lambda>p. cell_of (person_id p)) people)"
    and "distinct (map (\<lambda>g. cell_of (org_id g)) orgs)"
  shows "length (member_rows people orgs m) = 1"
proof -
  have p: "length (joined_names (map (\<lambda>p. (cell_of (person_id p), cell_of (person_name p))) people) k) = 1" for k
    using assms(1) by (intro joined_names_distinct) (simp add: comp_def)
  have g: "length (joined_names (map (\<lambda>g. (cell_of (org_id g), cell_of (org_name g))) orgs) k) = 1" for k
    using assms(2) by (intro joined_names_distinct) (simp add: comp_def)
  obtain a where a: "joined_names (map (\<lambda>p. (cell_of (person_id p), cell_of (person_name p))) people)
          (cell_of (person m)) = [a]"
    using p[of "cell_of (person m)"] by (auto simp: length_Suc_conv)
  obtain b where b: "joined_names (map (\<lambda>g. (cell_of (org_id g), cell_of (org_name g))) orgs)
              (cell_of (organization m)) = [b]"
    using g[of "cell_of (organization m)"] by (auto simp: length_Suc_conv)
  show ?thesis by (simp add: member_rows_def a b)
qed

lemma member_rows_Role:
  "r \<in> set (member_rows people orgs m) \<Longrightarrow>
     Role r = fillna ''Unknown'' (cell_of (role m)) \<and>
     Start_Date r = fillna ''Unknown'' (cell_of (startDate m))"
  by (auto simp: member_rows_def)




lemma member_rows_matched:
  assumes "r \<in> set (member_rows people orgs m)"
    and "filter (\<lambda>g. cell_of (org_id g) = cell_of (organization m)) orgs = [g]"
  shows "Organization r = clean_organization (fillna ''Unknown'' (cell_of (org_name g)))"
proof -
  have "filter (\<lambda>r. fst r = cell_of (organization m)) (map (\<lambda>g. (cell_of (org_id g), cell_of (org_name g))) orgs)
     = map (\<lambda>g. (cell_of (org_id g), cell_of (org_name g))) (filter (\<lambda>g. cell_of (org_id g) = cell_of (organization m)) orgs)"
    by (simp add: filter_map comp_def)
  then have "joined_names (map (\<lambda>g. (cell_of (org_id g), cell_of (org_name g))) orgs)
              (cell_of (organization m)) = [cell_of (org_name g)]"
    by (simp add: joined_names_def assms(2))
  with assms(1) show ?thesis by (auto simp: member_rows_def)
qed




subsection \<open>Replacing substrings\<close>

lemma str_replace_prefix:
  "old \<noteq> [] \<Longrightarrow> str_replace old new (old @ s) = new @ str_replace old new s"
  by (cases old) simp_all

lemma str_replace_absent:
  "\<not> sublist old s \<Longrightarrow> str_replace old new s = s"
proof (induction s)
  case Nil
  then show ?case by (cases old) auto
next
  case (Cons c s)
  from Cons.prems have "old \<noteq> []" by auto
  moreover from Cons.prems have "\<not> prefix old (c # s)"
    using prefix_imp_sublist by blast
  moreover from Cons.prems have "\<not> sublist old s"
    by (simp add: sublist_Cons_right)
  ultimately show ?case using Cons.IH by simp
qed

lemma str_replace_skip:
  "str_replace ''Fraktion der '' new (''Fraktionsgemeinschaft '' @ s) =
     ''Fraktionsgemeinschaft '' @ str_replace ''Fraktion der '' new s"
  by simp

lemma clean_Fraktion_der:
  "clean_organization (''Fraktion der '' @ s) = clean_organization s"
  unfolding clean_organization_def
  by (subst str_replace_prefix) simp_all

lemma clean_Fraktionsgemeinschaft:
  "clean_organization (''Fraktionsgemeinschaft '' @ s) = clean_organization s"
  unfolding clean_organization_def str_replace_skip
  by (subst str_replace_prefix) simp_all

lemma clean_absent:
  "\<not> sublist ''Fraktion der '' s \<Longrightarrow> \<not> sublist ''Fraktionsgemeinschaft '' s \<Longrightarrow>
     clean_organization s = s"
  by (simp add: clean_organization_def str_replace_absent)

lemma str_replace_inner:
  assumes "old \<noteq> []" and "hd old \<notin> set (tl old)" and "\<not> sublist old u"
  shows "str_replace old new (u @ old @ v) = u @ new @ str_replace old new v"
  using assms(3)
proof (induction u)
  case Nil
  show ?case using assms(1) by (simp add: str_replace_prefix)
next
  case (Cons c u)
  obtain x xs where old: "old = x # xs"
    using assms(1) by (cases old) auto
  have x: "x \<notin> set xs"
    using assms(2) by (simp add: old)
  from Cons.prems have no_u: "\<not> sublist old u" and no_p: "\<not> prefix old (c # u)"
    by (auto simp: sublist_Cons_right)
  have "\<not> prefix old (c # u @ old @ v)"
  proof
    assume "prefix old (c # u @ old @ v)"
    then have c: "x = c" and "prefix xs (u @ (x # xs) @ v)"
      by (auto simp: old)
    then consider "prefix xs u" | w where "xs = u @ w" "prefix w ((x # xs) @ v)"
      unfolding prefix_append by blast
    then show False
    proof cases
      case 1
      with c no_p show False by (simp add: old)
    next
      case 2
      show False
      proof (cases w)
        case Nil
        with 2(1) c no_p show False by (simp add: old)
      next
        case (Cons y ys)
        with 2(2) have "y = x" by simp
        with 2(1) Cons have "x \<in> set xs" by simp
        with x show False by contradiction
      qed
    qed
  qed
  with Cons.IH[OF no_u] assms(1) show ?case
    by simp
qed

lemma replace_inner_Fraktion_der:
  "\<not> sublist ''Fraktion der '' u \<Longrightarrow>
     str_replace ''Fraktion der '' new (u @ ''Fraktion der '' @ v) =
       u @ new @ str_replace ''Fraktion der '' new v"
  by (rule str_replace_inner) simp_all

lemma replace_inner_Fraktionsgemeinschaft:
  "\<not> sublist ''Fraktionsgemeinschaft '' u \<Longrightarrow>
     str_replace ''Fraktionsgemeinschaft '' new (u @ ''Fraktionsgemeinschaft '' @ v) =
       u @ new @ str_replace ''Fraktionsgemeinschaft '' new v"
  by (rule str_replace_inner) simp_all

lemma clean_inner_Fraktion_der:
  assumes "\<not> sublist ''Fraktion der '' u" and "\<not> sublist ''Fraktion der '' v"
    and "\<not> sublist ''Fraktionsgemeinschaft '' (u @ v)"
  shows "clean_organization (u @ ''Fraktion der '' @ v) = u @ v"
proof -
  have 1: "str_replace ''Fraktion der '' [] (u @ ''Fraktion der '' @ v) =
      u @ [] @ str_replace ''Fraktion der '' [] v"
    using assms(1) by (rule replace_inner_Fraktion_der)
  have 2: "str_replace ''Fraktion der '' [] v = v"
    using assms(2) by (rule str_replace_absent)
  have 3: "str_replace ''Fraktionsgemeinschaft '' [] (u @ v) = u @ v"
    using assms(3) by (rule str_replace_absent)
  show ?thesis
    by (simp only: clean_organization_def 1 2 3 append_Nil)
qed

lemma clean_inner_Fraktionsgemeinschaft:
  assumes "\<not> sublist ''Fraktion der '' (u @ ''Fraktionsgemeinschaft '' @ v)"
    and "\<not> sublist ''Fraktionsgemeinschaft '' u" and "\<not> sublist ''Fraktionsgemeinschaft '' v"
  shows "clean_organization (u @ ''Fraktionsgemeinschaft '' @ v) = u @ v"
proof -
  have 1: "str_replace ''Fraktion der '' [] (u @ ''Fraktionsgemeinschaft '' @ v) =
      u @ ''Fraktionsgemeinschaft '' @ v"
    using assms(1) by (rule str_replace_absent)
  have 2: "str_replace ''Fraktionsgemeinschaft '' [] (u @ ''Fraktionsgemeinschaft '' @ v) =
      u @ [] @ str_replace ''Fraktionsgemeinschaft '' [] v"
    using assms(2) by (rule replace_inner_Fraktionsgemeinschaft)
  have 3: "str_replace ''Fraktionsgemeinschaft '' [] v = v"
    using assms(3) by (rule str_replace_absent)
  show ?thesis
    by (simp only: clean_organization_def 1 2 3 append_Nil)
qed

subsection \<open>Options and days\<close>

lemma set_unique_from: "set (unique_from seen xs) = set xs - set seen"
  by (induction xs arbitrary: seen) auto

lemma set_unique: "set (unique xs) = set xs"
  by (simp add: unique_def set_unique_from)

lemma le_div_int_iff:
  fixes d t n :: int
  assumes "0 < n"
  shows "d \<le> t div n \<longleftrightarrow> d * n \<le> t"
proof
  assume "d \<le> t div n"
  then have "d * n \<le> (t div n) * n"
    using assms by (simp add: mult_right_mono)
  moreover have "t = (t div n) * n + t mod n"
    by simp
  moreover have "0 \<le> t mod n"
    using assms by simp
  ultimately show "d * n \<le> t"
    by linarith
next
  assume "d * n \<le> t"
  then have "(d * n) div n \<le> t div n"
    using assms by (rule zdiv_mono1)
  then show "d \<le> t div n"
    using assms by simp
qed

lemma div_int_le_iff:
  fixes d t n :: int
  assumes "0 < n"
  shows "t div n \<le> d \<longleftrightarrow> t < (d + 1) * n"
  using le_div_int_iff[OF assms, of "d + 1" t] by linarith

subsection \<open>The frames the loaders return\<close>

text \<open>
  On the frames the decisions loader returns, the rows are the records in their order;
  the status of a record without \<open>result\<close>, or with \<open>null\<close>, is \<open>No result\<close>, and
  the status of a record whose \<open>result\<close> is a string is the stripped string.
\<close>

lemma status_derivation:
  assumes "load_and_preprocess_decisions (Data data) = Inr (df, df_filtered)"
  shows "length df = length data \<and>
    (\<forall>i<length data. item (df ! i) = data ! i \<and>
       (result (data ! i) = Absent \<or> result (data ! i) = Null \<longrightarrow> status (df ! i) = ''No result'') \<and>
       (\<forall>s. result (data ! i) = Str s \<longrightarrow>
          status (df ! i) = strip s \<and> (status (df ! i) = [] \<longleftrightarrow> list_all isspace s)))"
  using assms
  by (auto simp: decisions_Data_iff cell_of_def fillna_def strip_No_result strip_eq_Nil_iff)

text \<open>
  On the table the people loader returns, there is one row for each membership record
  when no value stands twice in the \<open>id\<close> column of the people frame, nor in that of
  the organizations frame.
\<close>

lemma join_row_count:
  assumes "load_and_preprocess_people (Data people) (Data orgs) (Data memberships) = Inr t"
    and "distinct (map (\<lambda>p. cell_of (person_id p)) people)"
    and "distinct (map (\<lambda>g. cell_of (org_id g)) orgs)"
  shows "length t = length memberships"
proof -
  have t: "t = concat (map (member_rows people orgs) memberships)"
    using assms(1) by (simp add: people_Data_iff)
  have "length (concat (map (member_rows people orgs) ms)) = length ms" for ms
    by (induction ms) (simp_all add: member_rows_distinct[OF assms(2,3)])
  then show ?thesis
    unfolding t .
qed

section \<open>The claims about the decisions loader\<close>

text \<open>
  Claim C1. The specification says that the derived status is never empty: a missing or
  an empty \<open>result\<close> becomes \<open>No result\<close>. The code does so for the missing value
  only, although its comment announces the empty one: of two agenda items, the first with
  \<open>null\<close> and the second with the empty string as \<open>result\<close>, the first gets the
  status \<open>No result\<close> and the second the empty status, with which it stays in the
  actionable view.
\<close>

theorem status_of_empty_result:
  "load_and_preprocess_decisions
     (Data [\<lparr>item_id = Str ''1'', item_name = Str ''TOP 1'', created = 0, result = Null\<rparr>,
            \<lparr>item_id = Str ''2'', item_name = Str ''TOP 2'', created = 0, result = Str ''''\<rparr>]) =
   Inr ([\<lparr>item = \<lparr>item_id = Str ''1'', item_name = Str ''TOP 1'', created = 0, result = Null\<rparr>,
          status = ''No result''\<rparr>,
         \<lparr>item = \<lparr>item_id = Str ''2'', item_name = Str ''TOP 2'', created = 0, result = Str ''''\<rparr>,
          status = ''''\<rparr>],
        [\<lparr>item = \<lparr>item_id = Str ''2'', item_name = Str ''TOP 2'', created = 0, result = Str ''''\<rparr>,
          status = ''''\<rparr>])"
  by (simp add: decisions_Data_iff has_column_def cell_of_def fillna_def strip_def isspace_def)

text \<open>
  Claim C5. Whatever the source file, when the loader returns its two frames, the
  actionable one holds no row whose status is \<open>No result\<close> or \<open>Kenntnis genommen\<close>;
  a row with any other status is in the actionable frame if and only if it is in the
  full frame, and as many times; and the actionable rows keep their relative order.
\<close>

theorem actionable_view:
  assumes "load_and_preprocess_decisions src = Inr (df, df_filtered)"
  shows "(\<forall>r\<in>set df_filtered. status r \<noteq> ''No result'' \<and> status r \<noteq> ''Kenntnis genommen'') \<and>
    (\<forall>r. status r \<noteq> ''No result'' \<and> status r \<noteq> ''Kenntnis genommen'' \<longrightarrow>
       (r \<in> set df_filtered \<longleftrightarrow> r \<in> set df) \<and> count_list df_filtered r = count_list df r) \<and>
    subseq df_filtered df"
proof -
  let ?keep = "\<lambda>r. status r \<noteq> ''No result'' \<and> status r \<noteq> ''Kenntnis genommen''"
  have eq: "df_filtered = filter ?keep df"
    using assms by (rule decisions_Inr_filtered)
  have "count_list (filter ?keep df) r = count_list df r" if "?keep r" for r
    using that by (induction df) auto
  then show ?thesis
    unfolding eq by auto
qed

theorem actionable_view_witness:
  "load_and_preprocess_decisions
     (Data [\<lparr>item_id = Str ''1'', item_name = Str ''TOP 1'', created = 0, result = Null\<rparr>,
            \<lparr>item_id = Str ''2'', item_name = Str ''TOP 2'', created = 0, result = Str ''Beschlossen''\<rparr>,
            \<lparr>item_id = Str ''3'', item_name = Str ''TOP 3'', created = 0, result = Str ''Kenntnis genommen''\<rparr>]) =
   Inr ([\<lparr>item = \<lparr>item_id = Str ''1'', item_name = Str ''TOP 1'', created = 0, result = Null\<rparr>,
          status = ''No result''\<rparr>,
         \<lparr>item = \<lparr>item_id = Str ''2'', item_name = Str ''TOP 2'', created = 0, result = Str ''Beschlossen''\<rparr>,
          status = ''Beschlossen''\<rparr>,
         \<lparr>item = \<lparr>item_id = Str ''3'', item_name = Str ''TOP 3'', created = 0, result = Str ''Kenntnis genommen''\<rparr>,
          status = ''Kenntnis genommen''\<rparr>],
        [\<lparr>item = \<lparr>item_id = Str ''2'', item_name = Str ''TOP 2'', created = 0, result = Str ''Beschlossen''\<rparr>,
          status = ''Beschlossen''\<rparr>]) \<and>
   list_all (\<lambda>r. status r \<noteq> ''No result'' \<and> status r \<noteq> ''Kenntnis genommen'')
     [\<lparr>item = \<lparr>item_id = Str ''2'', item_name = Str ''TOP 2'', created = 0, result = Str ''Beschlossen''\<rparr>,
       status = ''Beschlossen''\<rparr>]"
proof -
  let ?a = "\<lparr>item_id = Str ''1'', item_name = Str ''TOP 1'', created = 0, result = Null\<rparr>"
  let ?b = "\<lparr>item_id = Str ''2'', item_name = Str ''TOP 2'', created = 0, result = Str ''Beschlossen''\<rparr>"
  let ?c = "\<lparr>item_id = Str ''3'', item_name = Str ''TOP 3'', created = 0, result = Str ''Kenntnis genommen''\<rparr>"
  have h: "load_and_preprocess_decisions (Data [?a, ?b, ?c]) =
      Inr ([\<lparr>item = ?a, status = ''No result''\<rparr>, \<lparr>item = ?b, status = ''Beschlossen''\<rparr>,
            \<lparr>item = ?c, status = ''Kenntnis genommen''\<rparr>],
           [\<lparr>item = ?b, status = ''Beschlossen''\<rparr>])"
    by (simp add: decisions_Data_iff has_column_def cell_of_def fillna_def strip_def isspace_def)
  from actionable_view[OF h]
  have "\<forall>r\<in>set [\<lparr>item = ?b, status = ''Beschlossen''\<rparr>].
      status r \<noteq> ''No result'' \<and> status r \<noteq> ''Kenntnis genommen''"
    by blast
  then have "list_all (\<lambda>r. status r \<noteq> ''No result'' \<and> status r \<noteq> ''Kenntnis genommen'')
      [\<lparr>item = ?b, status = ''Beschlossen''\<rparr>]"
    unfolding list_all_iff .
  with h show ?thesis by blast
qed

text \<open>
  Claim C6, as the code has it. The specification says that a missing or malformed
  source makes each loader return an empty result. The loaders handle
  \<open>FileNotFoundError\<close> and nothing else: the decisions loader returns two empty frames
  when its file is missing, the people loader an empty frame when the first file it
  cannot load is missing; a file that is not JSON, or that has no \<open>data\<close> key or
  an empty \<open>data\<close> list, makes the loader raise (\<open>JSONDecodeError\<close>,
  \<open>KeyError\<close>), also when a later file is missing.
\<close>

theorem loader_failures:
  "load_and_preprocess_decisions Missing = Inr ([], []) \<and>
   load_and_preprocess_decisions Invalid_json = Inl JSONDecodeError \<and>
   load_and_preprocess_decisions No_data_key = Inl KeyError \<and>
   load_and_preprocess_decisions (Data []) = Inl KeyError \<and>
   load_and_preprocess_people Missing org_path membership_path = Inr [] \<and>
   load_and_preprocess_people (Data people) Missing membership_path = Inr [] \<and>
   load_and_preprocess_people (Data people) (Data orgs) Missing = Inr [] \<and>
   load_and_preprocess_people Invalid_json org_path membership_path = Inl JSONDecodeError \<and>
   load_and_preprocess_people No_data_key org_path membership_path = Inl KeyError \<and>
   load_and_preprocess_people (Data people) Invalid_json membership_path = Inl JSONDecodeError \<and>
   load_and_preprocess_people (Data people) No_data_key membership_path = Inl KeyError \<and>
   load_and_preprocess_people (Data people) (Data orgs) Invalid_json = Inl JSONDecodeError \<and>
   load_and_preprocess_people (Data people) (Data orgs) No_data_key = Inl KeyError"
  by (simp add: load_and_preprocess_decisions_def decisions_try_def
      load_and_preprocess_people_def people_try_def read_data_def)

text \<open>
  A decisions file that is not JSON, and one without the \<open>data\<close> key: the exception
  leaves the loader. The same for the people loader, whose other two files are missing.
\<close>

theorem malformed_source_counterexample:
  "load_and_preprocess_decisions Invalid_json = Inl JSONDecodeError \<and>
   load_and_preprocess_decisions No_data_key = Inl KeyError \<and>
   load_and_preprocess_people Invalid_json Missing Missing = Inl JSONDecodeError"
  by (simp add: load_and_preprocess_decisions_def decisions_try_def
      load_and_preprocess_people_def people_try_def read_data_def)


section \<open>The claims about the people loader\<close>

text \<open>
  Claim C2. The specification says that the joined table has as many rows as there are
  membership records, whenever the ids are distinct. The two left merges keep every
  membership row, but on a collection without records the loader does not reach them:
  the frame of an empty list has no columns, and reading one raises \<open>KeyError\<close>.
  With an empty people collection the one membership record is lost with the table, and
  with an empty membership collection the loader returns no empty table.
\<close>

theorem empty_collection_raises:
  "load_and_preprocess_people
     (Data [])
     (Data [\<lparr>org_id = Str ''o1'', org_name = Str ''SPD''\<rparr>])
     (Data [\<lparr>person = Str ''p1'', organization = Str ''o1'', role = Str ''Mitglied'',
             startDate = Str ''2019-07-23'', membership_name = Absent\<rparr>]) = Inl KeyError \<and>
   load_and_preprocess_people
     (Data [\<lparr>person_id = Str ''p1'', person_name = Str ''Alice''\<rparr>])
     (Data [\<lparr>org_id = Str ''o1'', org_name = Str ''SPD''\<rparr>])
     (Data []) = Inl KeyError"
  by (simp add: load_and_preprocess_people_def people_try_def read_data_def has_column_def)




text \<open>
  Claim C4, as the code has it. The specification says that only the two prefixes are
  stripped and that a name starting with neither is unchanged. The clean-up is no strip
  of prefixes: it is \<open>str.replace\<close> of \<open>Fraktion der \<close> by the empty string,
  followed by \<open>str.replace\<close> of \<open>Fraktionsgemeinschaft \<close> by the empty string in the
  result. Such a replacement leaves unchanged a string in which the pattern does not
  occur, and in a string \<open>u\<close>, pattern, \<open>v\<close> with no occurrence in \<open>u\<close> it keeps
  \<open>u\<close>, drops the pattern and goes on with \<open>v\<close>. So the clean-up removes an
  occurrence wherever it stands. A name \<open>u\<close>, \<open>Fraktion der \<close>, \<open>v\<close> becomes
  \<open>u\<close>, \<open>v\<close> when \<open>Fraktion der \<close> occurs neither in \<open>u\<close> nor in \<open>v\<close>
  and \<open>Fraktionsgemeinschaft \<close> does not occur in \<open>u\<close>, \<open>v\<close>. A name \<open>u\<close>,
  \<open>Fraktionsgemeinschaft \<close>, \<open>v\<close> becomes \<open>u\<close>, \<open>v\<close> when
  \<open>Fraktion der \<close> does not occur in the name and \<open>Fraktionsgemeinschaft \<close> occurs
  neither in \<open>u\<close> nor in \<open>v\<close>. A name that starts with one of the two strings loses
  it, the rest being cleaned in the same way, and a name in which neither string occurs
  anywhere is left unchanged. In the table the loader returns, the rows of a
  membership whose \<open>organization\<close> equals the \<open>id\<close> of exactly one organization
  carry that organization's name (\<open>Unknown\<close> for a missing name), cleaned.
\<close>

theorem organization_cleanup:
  assumes "load_and_preprocess_people (Data people) (Data orgs) (Data memberships) = Inr t"
  shows "(\<exists>ts. t = concat ts \<and> length ts = length memberships \<and>
      (\<forall>i<length memberships. ts ! i \<noteq> [] \<and>
        (\<forall>g. filter (\<lambda>g. cell_of (org_id g) = cell_of (organization (memberships ! i))) orgs = [g] \<longrightarrow>
          (\<forall>r\<in>set (ts ! i).
             Organization r = clean_organization (fillna ''Unknown'' (cell_of (org_name g))))))) \<and>
    (\<forall>s. clean_organization s =
       str_replace ''Fraktionsgemeinschaft '' [] (str_replace ''Fraktion der '' [] s)) \<and>
    (\<forall>old s. \<not> sublist old s \<longrightarrow> str_replace old [] s = s) \<and>
    (\<forall>u v. \<not> sublist ''Fraktion der '' u \<longrightarrow>
       str_replace ''Fraktion der '' [] (u @ ''Fraktion der '' @ v) =
         u @ str_replace ''Fraktion der '' [] v) \<and>
    (\<forall>u v. \<not> sublist ''Fraktionsgemeinschaft '' u \<longrightarrow>
       str_replace ''Fraktionsgemeinschaft '' [] (u @ ''Fraktionsgemeinschaft '' @ v) =
         u @ str_replace ''Fraktionsgemeinschaft '' [] v) \<and>
    (\<forall>u v. \<not> sublist ''Fraktion der '' u \<and> \<not> sublist ''Fraktion der '' v \<and>
         \<not> sublist ''Fraktionsgemeinschaft '' (u @ v) \<longrightarrow>
       clean_organization (u @ ''Fraktion der '' @ v) = u @ v) \<and>
    (\<forall>u v. \<not> sublist ''Fraktion der '' (u @ ''Fraktionsgemeinschaft '' @ v) \<and>
         \<not> sublist ''Fraktionsgemeinschaft '' u \<and> \<not> sublist ''Fraktionsgemeinschaft '' v \<longrightarrow>
       clean_organization (u @ ''Fraktionsgemeinschaft '' @ v) = u @ v) \<and>
    (\<forall>s. clean_organization (''Fraktion der '' @ s) = clean_organization s) \<and>
    (\<forall>s. clean_organization (''Fraktionsgemeinschaft '' @ s) = clean_organization s) \<and>
    (\<forall>s. \<not> sublist ''Fraktion der '' s \<and> \<not> sublist ''Fraktionsgemeinschaft '' s \<longrightarrow>
       clean_organization s = s)"
proof (intro conjI exI allI impI)
  show "t = concat (map (member_rows people orgs) memberships)"
    using assms by (simp add: people_Data_iff)
  show "length (map (member_rows people orgs) memberships) = length memberships"
    by simp
  show "clean_organization s =
      str_replace ''Fraktionsgemeinschaft '' [] (str_replace ''Fraktion der '' [] s)" for s
    by (simp add: clean_organization_def)
  show "str_replace old [] s = s" if "\<not> sublist old s" for old s
    using that by (rule str_replace_absent)
  show "str_replace ''Fraktion der '' [] (u @ ''Fraktion der '' @ v) =
      u @ str_replace ''Fraktion der '' [] v" if "\<not> sublist ''Fraktion der '' u" for u v
    using replace_inner_Fraktion_der[OF that, of "[]" v] by simp
  show "str_replace ''Fraktionsgemeinschaft '' [] (u @ ''Fraktionsgemeinschaft '' @ v) =
      u @ str_replace ''Fraktionsgemeinschaft '' [] v"
    if "\<not> sublist ''Fraktionsgemeinschaft '' u" for u v
    using replace_inner_Fraktionsgemeinschaft[OF that, of "[]" v] by simp
  show "clean_organization (u @ ''Fraktion der '' @ v) = u @ v"
    if "\<not> sublist ''Fraktion der '' u \<and> \<not> sublist ''Fraktion der '' v \<and>
         \<not> sublist ''Fraktionsgemeinschaft '' (u @ v)" for u v
    using that by (intro clean_inner_Fraktion_der) simp_all
  show "clean_organization (u @ ''Fraktionsgemeinschaft '' @ v) = u @ v"
    if "\<not> sublist ''Fraktion der '' (u @ ''Fraktionsgemeinschaft '' @ v) \<and>
         \<not> sublist ''Fraktionsgemeinschaft '' u \<and> \<not> sublist ''Fraktionsgemeinschaft '' v" for u v
    using that by (intro clean_inner_Fraktionsgemeinschaft) simp_all
  show "clean_organization (''Fraktion der '' @ s) = clean_organization s" for s
    by (rule clean_Fraktion_der)
  show "clean_organization (''Fraktionsgemeinschaft '' @ s) = clean_organization s" for s
    by (rule clean_Fraktionsgemeinschaft)
  show "clean_organization s = s"
    if "\<not> sublist ''Fraktion der '' s \<and> \<not> sublist ''Fraktionsgemeinschaft '' s" for s
    using that by (simp add: clean_absent)
next
  fix i assume "i < length memberships"
  then have nth: "map (member_rows people orgs) memberships ! i = member_rows people orgs (memberships ! i)"
    by simp
  show "map (member_rows people orgs) memberships ! i \<noteq> []"
    unfolding nth by (rule member_rows_not_Nil)
  show "\<forall>r\<in>set (map (member_rows people orgs) memberships ! i).
      Organization r = clean_organization (fillna ''Unknown'' (cell_of (org_name g)))"
    if "filter (\<lambda>g. cell_of (org_id g) = cell_of (organization (memberships ! i))) orgs = [g]" for g
    unfolding nth using that by (blast intro: member_rows_matched)
qed

text \<open>
  The scenario of the specification, Alice of the \<open>Fraktion der Gruenen\<close>, and a name
  with \<open>Fraktionsgemeinschaft \<close> in its middle.
\<close>

theorem organization_cleanup_witness:
  "load_and_preprocess_people
     (Data [\<lparr>person_id = Str ''p1'', person_name = Str ''Alice''\<rparr>])
     (Data [\<lparr>org_id = Str ''o1'', org_name = Str ''Fraktion der Gruenen''\<rparr>])
     (Data [\<lparr>person = Str ''p1'', organization = Str ''o1'', role = Str ''Mitglied'',
             startDate = Str ''2019-07-23'', membership_name = Absent\<rparr>]) =
   Inr [\<lparr>Name = ''Alice'', Organization = ''Gruenen'', Role = ''Mitglied'', Start_Date = ''2019-07-23''\<rparr>] \<and>
   clean_organization ''Alte Fraktionsgemeinschaft Nord'' = ''Alte Nord''"
proof -
  have h: "load_and_preprocess_people
     (Data [\<lparr>person_id = Str ''p1'', person_name = Str ''Alice''\<rparr>])
     (Data [\<lparr>org_id = Str ''o1'', org_name = Str ''Fraktion der Gruenen''\<rparr>])
     (Data [\<lparr>person = Str ''p1'', organization = Str ''o1'', role = Str ''Mitglied'',
             startDate = Str ''2019-07-23'', membership_name = Absent\<rparr>]) =
   Inr [\<lparr>Name = ''Alice'', Organization = ''Gruenen'', Role = ''Mitglied'', Start_Date = ''2019-07-23''\<rparr>]"
    by (simp add: people_Data_iff people_columns_def has_column_def member_rows_def
        joined_names_def cell_of_def fillna_def clean_organization_def)
  from organization_cleanup[OF h]
  have "\<forall>u v. \<not> sublist ''Fraktion der '' (u @ ''Fraktionsgemeinschaft '' @ v) \<and>
         \<not> sublist ''Fraktionsgemeinschaft '' u \<and> \<not> sublist ''Fraktionsgemeinschaft '' v \<longrightarrow>
       clean_organization (u @ ''Fraktionsgemeinschaft '' @ v) = u @ v"
    by blast
  then have "\<not> sublist ''Fraktion der '' (''Alte '' @ ''Fraktionsgemeinschaft '' @ ''Nord'') \<and>
         \<not> sublist ''Fraktionsgemeinschaft '' ''Alte '' \<and> \<not> sublist ''Fraktionsgemeinschaft '' ''Nord'' \<longrightarrow>
       clean_organization (''Alte '' @ ''Fraktionsgemeinschaft '' @ ''Nord'') = ''Alte '' @ ''Nord''"
    by blast
  moreover have "\<not> sublist ''Fraktion der '' (''Alte '' @ ''Fraktionsgemeinschaft '' @ ''Nord'')"
    by (simp add: sublist_Cons_right)
  moreover have "\<not> sublist ''Fraktionsgemeinschaft '' ''Alte ''"
    by (simp add: sublist_Cons_right)
  moreover have "\<not> sublist ''Fraktionsgemeinschaft '' ''Nord''"
    by (simp add: sublist_Cons_right)
  ultimately have "clean_organization (''Alte '' @ ''Fraktionsgemeinschaft '' @ ''Nord'') =
      ''Alte '' @ ''Nord''"
    by blast
  with h show ?thesis
    by simp
qed

text \<open>
  A name that starts with neither prefix and is changed all the same: the string
  \<open>Fraktion der \<close> stands in the middle of it.
\<close>

theorem organization_cleanup_counterexample:
  "\<not> prefix ''Fraktion der '' ''Junge Fraktion der Mitte'' \<and>
   \<not> prefix ''Fraktionsgemeinschaft '' ''Junge Fraktion der Mitte'' \<and>
   load_and_preprocess_people
     (Data [\<lparr>person_id = Str ''p1'', person_name = Str ''Alice''\<rparr>])
     (Data [\<lparr>org_id = Str ''o1'', org_name = Str ''Junge Fraktion der Mitte''\<rparr>])
     (Data [\<lparr>person = Str ''p1'', organization = Str ''o1'', role = Str ''Mitglied'',
             startDate = Str ''2019-07-23'',
       membership_name = Absent\<rparr>]) =
   Inr [\<lparr>Name = ''Alice'', Organization = ''Junge Mitte'', Role = ''Mitglied'',
         Start_Date = ''2019-07-23''\<rparr>]"
  by (simp add: people_Data_iff people_columns_def has_column_def member_rows_def
      joined_names_def cell_of_def fillna_def clean_organization_def)

text \<open>
  Claim C10. In the table the loader returns, \<open>Unknown\<close> fills every column: in each
  row that comes from a membership record, \<open>Role\<close> is the record's role, or
  \<open>Unknown\<close> when the record has no role or a \<open>null\<close> one, and \<open>Start_Date\<close> is the
  record's start date, or \<open>Unknown\<close> in the same way. (When the loader returns a table,
  some record of the collection carries each of the two keys.)
\<close>

theorem fillna_every_column:
  assumes "load_and_preprocess_people (Data people) (Data orgs) (Data memberships) = Inr t"
  shows "\<exists>ts. t = concat ts \<and> length ts = length memberships \<and>
    (\<forall>i<length memberships. ts ! i \<noteq> [] \<and>
       (\<forall>r\<in>set (ts ! i).
          (role (memberships ! i) = Absent \<or> role (memberships ! i) = Null \<longrightarrow> Role r = ''Unknown'') \<and>
          (\<forall>s. role (memberships ! i) = Str s \<longrightarrow> Role r = s) \<and>
          (startDate (memberships ! i) = Absent \<or> startDate (memberships ! i) = Null \<longrightarrow>
             Start_Date r = ''Unknown'') \<and>
          (\<forall>s. startDate (memberships ! i) = Str s \<longrightarrow> Start_Date r = s)))"
proof (intro exI conjI allI impI ballI)
  show "t = concat (map (member_rows people orgs) memberships)"
    using assms by (simp add: people_Data_iff)
  show "length (map (member_rows people orgs) memberships) = length memberships"
    by simp
next
  fix i assume "i < length memberships"
  then have nth: "map (member_rows people orgs) memberships ! i = member_rows people orgs (memberships ! i)"
    by simp
  show "map (member_rows people orgs) memberships ! i \<noteq> []"
    unfolding nth by (rule member_rows_not_Nil)
  fix r assume "r \<in> set (map (member_rows people orgs) memberships ! i)"
  then have r: "Role r = fillna ''Unknown'' (cell_of (role (memberships ! i)))"
      "Start_Date r = fillna ''Unknown'' (cell_of (startDate (memberships ! i)))"
    unfolding nth by (simp_all add: member_rows_Role)
  show "Role r = ''Unknown''" if "role (memberships ! i) = Absent \<or> role (memberships ! i) = Null"
    using that r(1) by (auto simp: cell_of_def fillna_def)
  show "Role r = s" if "role (memberships ! i) = Str s" for s
    using that r(1) by (simp add: cell_of_def fillna_def)
  show "Start_Date r = ''Unknown''"
    if "startDate (memberships ! i) = Absent \<or> startDate (memberships ! i) = Null"
    using that r(2) by (auto simp: cell_of_def fillna_def)
  show "Start_Date r = s" if "startDate (memberships ! i) = Str s" for s
    using that r(2) by (simp add: cell_of_def fillna_def)
qed

theorem fillna_every_column_witness:
  "load_and_preprocess_people
     (Data [\<lparr>person_id = Str ''p1'', person_name = Str ''Alice''\<rparr>])
     (Data [\<lparr>org_id = Str ''o1'', org_name = Str ''SPD''\<rparr>])
     (Data [\<lparr>person = Str ''p1'', organization = Str ''o1'', role = Null, startDate = Null,
       membership_name = Absent\<rparr>,
            \<lparr>person = Str ''p1'', organization = Str ''o1'', role = Absent,
             startDate = Str ''2019-07-23'',
       membership_name = Absent\<rparr>]) =
   Inr [\<lparr>Name = ''Alice'', Organization = ''SPD'', Role = ''Unknown'', Start_Date = ''Unknown''\<rparr>,
        \<lparr>Name = ''Alice'', Organization = ''SPD'', Role = ''Unknown'', Start_Date = ''2019-07-23''\<rparr>] \<and>
   (\<exists>ts. [\<lparr>Name = ''Alice'', Organization = ''SPD'', Role = ''Unknown'', Start_Date = ''Unknown''\<rparr>,
        \<lparr>Name = ''Alice'', Organization = ''SPD'', Role = ''Unknown'', Start_Date = ''2019-07-23''\<rparr>] =
        concat ts \<and> length ts = 2)"
proof -
  have h: "load_and_preprocess_people
     (Data [\<lparr>person_id = Str ''p1'', person_name = Str ''Alice''\<rparr>])
     (Data [\<lparr>org_id = Str ''o1'', org_name = Str ''SPD''\<rparr>])
     (Data [\<lparr>person = Str ''p1'', organization = Str ''o1'', role = Null, startDate = Null,
       membership_name = Absent\<rparr>,
            \<lparr>person = Str ''p1'', organization = Str ''o1'', role = Absent,
             startDate = Str ''2019-07-23'',
       membership_name = Absent\<rparr>]) =
   Inr [\<lparr>Name = ''Alice'', Organization = ''SPD'', Role = ''Unknown'', Start_Date = ''Unknown''\<rparr>,
        \<lparr>Name = ''Alice'', Organization = ''SPD'', Role = ''Unknown'', Start_Date = ''2019-07-23''\<rparr>]"
    by (simp add: people_Data_iff people_columns_def has_column_def member_rows_def
        joined_names_def cell_of_def fillna_def clean_organization_def)
  from fillna_every_column[OF h] obtain ts where
    "[\<lparr>Name = ''Alice'', Organization = ''SPD'', Role = ''Unknown'', Start_Date = ''Unknown''\<rparr>,
        \<lparr>Name = ''Alice'', Organization = ''SPD'', Role = ''Unknown'', Start_Date = ''2019-07-23''\<rparr>] =
        concat ts" and "length ts = 2"
    by auto
  with h show ?thesis
    by blast
qed


section \<open>The claims about the filters\<close>

text \<open>
  Claim C7. Filtering by an empty selection gives the empty frame, whatever the frame:
  the status mask and the organization mask keep no row, and a page whose multiselect
  returns nothing shows the empty frame, not the whole one.
\<close>

theorem empty_selection:
  "filter_status [] filtered_df = [] \<and>
   filter_orgs [] df_members = [] \<and>
   (df_all_decisions \<noteq> [] \<longrightarrow>
      decisions_page df_all_decisions df_decisions date_range (\<lambda>options. []) = Some []) \<and>
   (df_members \<noteq> [] \<longrightarrow> people_page df_members (\<lambda>options. []) = Some [])"
  by (simp add: filter_status_def filter_orgs_def decisions_page_def people_page_def isin_def)

theorem empty_selection_witness:
  "filter_status [] [\<lparr>item = \<lparr>item_id = Str ''1'', item_name = Str ''TOP 1'', created = 0,
       result = Str ''Beschlossen''\<rparr>, status = ''Beschlossen''\<rparr>] = [] \<and>
   decisions_page
     [\<lparr>item = \<lparr>item_id = Str ''1'', item_name = Str ''TOP 1'', created = 0,
       result = Str ''Beschlossen''\<rparr>, status = ''Beschlossen''\<rparr>]
     [\<lparr>item = \<lparr>item_id = Str ''1'', item_name = Str ''TOP 1'', created = 0,
       result = Str ''Beschlossen''\<rparr>, status = ''Beschlossen''\<rparr>]
     [0, 0] (\<lambda>options. []) = Some [] \<and>
   people_page
     [\<lparr>Name = ''Alice'', Organization = ''SPD'', Role = ''Mitglied'', Start_Date = ''2019-07-23''\<rparr>]
     (\<lambda>options. []) = Some []"
  using empty_selection[of
      "[\<lparr>item = \<lparr>item_id = Str ''1'', item_name = Str ''TOP 1'', created = 0,
         result = Str ''Beschlossen''\<rparr>, status = ''Beschlossen''\<rparr>]"
      "[\<lparr>Name = ''Alice'', Organization = ''SPD'', Role = ''Mitglied'', Start_Date = ''2019-07-23''\<rparr>]"
      "[\<lparr>item = \<lparr>item_id = Str ''1'', item_name = Str ''TOP 1'', created = 0,
         result = Str ''Beschlossen''\<rparr>, status = ''Beschlossen''\<rparr>]"
      "[\<lparr>item = \<lparr>item_id = Str ''1'', item_name = Str ''TOP 1'', created = 0,
         result = Str ''Beschlossen''\<rparr>, status = ''Beschlossen''\<rparr>]"
      "[0, 0]"]
  by simp

text \<open>
  Claim C8. Filtering a frame by all the values of the field that occur in it gives the
  frame back, row for row and in the same order: so for the status mask with the status
  options of the frame, for the organization mask with the organization options, and for
  the pages when the multiselect returns every option it is offered.
\<close>

theorem all_values_selected:
  "filter_status (status_options filtered_df) filtered_df = filtered_df \<and>
   filter_orgs (org_options df_members) df_members = df_members \<and>
   (df_all_decisions \<noteq> [] \<longrightarrow>
      decisions_page df_all_decisions df_decisions date_range (\<lambda>options. options) =
        Some (filter_date_range date_range df_decisions)) \<and>
   (df_members \<noteq> [] \<longrightarrow> people_page df_members (\<lambda>options. options) = Some df_members)"
proof -
  have s: "filter_status (status_options df) df = df" for df
    by (simp add: filter_status_def status_options_def isin_def set_unique)
  have g: "filter_orgs (org_options df) df = df" for df
    by (simp add: filter_orgs_def org_options_def isin_def set_unique)
  show ?thesis
    by (simp add: s g decisions_page_def people_page_def Let_def)
qed

theorem all_values_selected_witness:
  "status_options
     [\<lparr>item = \<lparr>item_id = Str ''1'', item_name = Str ''TOP 1'', created = 0,
        result = Str ''Vertagt''\<rparr>, status = ''Vertagt''\<rparr>,
      \<lparr>item = \<lparr>item_id = Str ''2'', item_name = Str ''TOP 2'', created = 0,
        result = Str ''Beschlossen''\<rparr>, status = ''Beschlossen''\<rparr>,
      \<lparr>item = \<lparr>item_id = Str ''3'', item_name = Str ''TOP 3'', created = 0,
        result = Str ''Vertagt''\<rparr>, status = ''Vertagt''\<rparr>] = [''Beschlossen'', ''Vertagt''] \<and>
   filter_status [''Beschlossen'', ''Vertagt'']
     [\<lparr>item = \<lparr>item_id = Str ''1'', item_name = Str ''TOP 1'', created = 0,
        result = Str ''Vertagt''\<rparr>, status = ''Vertagt''\<rparr>,
      \<lparr>item = \<lparr>item_id = Str ''2'', item_name = Str ''TOP 2'', created = 0,
        result = Str ''Beschlossen''\<rparr>, status = ''Beschlossen''\<rparr>,
      \<lparr>item = \<lparr>item_id = Str ''3'', item_name = Str ''TOP 3'', created = 0,
        result = Str ''Vertagt''\<rparr>, status = ''Vertagt''\<rparr>] =
     [\<lparr>item = \<lparr>item_id = Str ''1'', item_name = Str ''TOP 1'', created = 0,
        result = Str ''Vertagt''\<rparr>, status = ''Vertagt''\<rparr>,
      \<lparr>item = \<lparr>item_id = Str ''2'', item_name = Str ''TOP 2'', created = 0,
        result = Str ''Beschlossen''\<rparr>, status = ''Beschlossen''\<rparr>,
      \<lparr>item = \<lparr>item_id = Str ''3'', item_name = Str ''TOP 3'', created = 0,
        result = Str ''Vertagt''\<rparr>, status = ''Vertagt''\<rparr>]"
proof -
  let ?df = "[\<lparr>item = \<lparr>item_id = Str ''1'', item_name = Str ''TOP 1'', created = 0,
        result = Str ''Vertagt''\<rparr>, status = ''Vertagt''\<rparr>,
      \<lparr>item = \<lparr>item_id = Str ''2'', item_name = Str ''TOP 2'', created = 0,
        result = Str ''Beschlossen''\<rparr>, status = ''Beschlossen''\<rparr>,
      \<lparr>item = \<lparr>item_id = Str ''3'', item_name = Str ''TOP 3'', created = 0,
        result = Str ''Vertagt''\<rparr>, status = ''Vertagt''\<rparr>]"
  have o: "status_options ?df = [''Beschlossen'', ''Vertagt'']"
    by (simp add: status_options_def unique_def)
  from all_values_selected[of ?df] have "filter_status (status_options ?df) ?df = ?df"
    by (rule conjunct1)
  with o show ?thesis
    by simp
qed

text \<open>
  Claim C9. The date filter keeps both ends of the range: with the range
  \<open>[min_date, max_date]\<close> it keeps exactly the rows whose day is at least \<open>min_date\<close>
  and at most \<open>max_date\<close>, in their order, that is, the rows whose instant lies between the
  first nanosecond of \<open>min_date\<close> and the last one of \<open>max_date\<close>; with twice the same
  day it keeps exactly the rows of that day.
\<close>

theorem date_range_inclusive:
  "filter_date_range [min_date, max_date] df_decisions =
     filter (\<lambda>r. min_date \<le> dt_date (created (item r)) \<and> dt_date (created (item r)) \<le> max_date)
       df_decisions \<and>
   filter_date_range [min_date, max_date] df_decisions =
     filter (\<lambda>r. min_date * 86400000000000 \<le> created (item r) \<and>
                 created (item r) < (max_date + 1) * 86400000000000) df_decisions \<and>
   filter_date_range [d, d] df_decisions =
     filter (\<lambda>r. dt_date (created (item r)) = d) df_decisions"
proof -
  have "filter_date_range [a, b] df_decisions =
      filter (\<lambda>r. a \<le> dt_date (created (item r)) \<and> dt_date (created (item r)) \<le> b) df_decisions"
    for a b
    by (simp add: filter_date_range_def)
  moreover have "(a \<le> dt_date t \<and> dt_date t \<le> b) =
      (a * 86400000000000 \<le> t \<and> t < (b + 1) * 86400000000000)" for a b t
    by (simp add: dt_date_def le_div_int_iff div_int_le_iff)
  moreover have "(d \<le> dt_date t \<and> dt_date t \<le> d) = (dt_date t = d)" for t
    by auto
  ultimately show ?thesis
    by simp
qed

theorem date_range_inclusive_witness:
  "filter_date_range [19000, 19000]
     [\<lparr>item = \<lparr>item_id = Str ''1'', item_name = Str ''TOP 1'', created = 1641599999999999999,
        result = Str ''Vertagt''\<rparr>, status = ''Vertagt''\<rparr>,
      \<lparr>item = \<lparr>item_id = Str ''2'', item_name = Str ''TOP 2'', created = 1641600000000000000,
        result = Str ''Beschlossen''\<rparr>, status = ''Beschlossen''\<rparr>,
      \<lparr>item = \<lparr>item_id = Str ''3'', item_name = Str ''TOP 3'', created = 1641686399999999999,
        result = Str ''Vertagt''\<rparr>, status = ''Vertagt''\<rparr>,
      \<lparr>item = \<lparr>item_id = Str ''4'', item_name = Str ''TOP 4'', created = 1641686400000000000,
        result = Str ''Vertagt''\<rparr>, status = ''Vertagt''\<rparr>] =
     [\<lparr>item = \<lparr>item_id = Str ''2'', item_name = Str ''TOP 2'', created = 1641600000000000000,
        result = Str ''Beschlossen''\<rparr>, status = ''Beschlossen''\<rparr>,
      \<lparr>item = \<lparr>item_id = Str ''3'', item_name = Str ''TOP 3'', created = 1641686399999999999,
        result = Str ''Vertagt''\<rparr>, status = ''Vertagt''\<rparr>]"
proof -
  let ?df = "[\<lparr>item = \<lparr>item_id = Str ''1'', item_name = Str ''TOP 1'', created = 1641599999999999999,
        result = Str ''Vertagt''\<rparr>, status = ''Vertagt''\<rparr>,
      \<lparr>item = \<lparr>item_id = Str ''2'', item_name = Str ''TOP 2'', created = 1641600000000000000,
        result = Str ''Beschlossen''\<rparr>, status = ''Beschlossen''\<rparr>,
      \<lparr>item = \<lparr>item_id = Str ''3'', item_name = Str ''TOP 3'', created = 1641686399999999999,
        result = Str ''Vertagt''\<rparr>, status = ''Vertagt''\<rparr>,
      \<lparr>item = \<lparr>item_id = Str ''4'', item_name = Str ''TOP 4'', created = 1641686400000000000,
        result = Str ''Vertagt''\<rparr>, status = ''Vertagt''\<rparr>]"
  from date_range_inclusive[of 19000 19000 ?df]
  have "filter_date_range [19000, 19000] ?df =
     filter (\<lambda>r. 19000 * 86400000000000 \<le> created (item r) \<and>
                 created (item r) < (19000 + 1) * 86400000000000) ?df"
    by blast
  then show ?thesis
    by simp
qed


end
